theory Spec2Isabelle
  imports Main
begin

section \<open>The workload external storage of the cloudimpl package\<close>

text \<open>
  The file holds two things: \<open>ParseWorkloadConfig\<close>, which turns a URI into a
  \<open>roachpb.ExternalStorage\<close> configuration, and \<open>makeWorkloadStorage\<close> with the
  methods of the \<open>workloadStorage\<close> it builds. Go strings are byte strings and are
  modelled as \<open>string\<close> (a list of 8-bit characters); \<open>int64\<close> values are modelled as
  \<open>int\<close>, the range check of \<open>strconv.ParseInt\<close> being written out.
\<close>

subsection \<open>Functions of the Go standard library used by the file\<close>

text \<open>
  \<open>strings.Trim(s, "/")\<close> and \<open>strings.Split(s, "/")\<close>: the file only ever uses the
  one-byte cutset and separator \<open>/\<close>, so both take a single character.
  \<open>strings.Split\<close> returns one more part than there are separators; the empty string
  gives the single part \<open>""\<close>. The result is never empty, so the first branch of the
  \<open>case\<close> below is never taken.
\<close>

definition strings_Trim :: "string \<Rightarrow> char \<Rightarrow> string" where
  "strings_Trim s c = rev (dropWhile (\<lambda>x. x = c) (rev (dropWhile (\<lambda>x. x = c) s)))"

fun strings_Split :: "string \<Rightarrow> char \<Rightarrow> string list" where
  "strings_Split [] sep = ['''']"
| "strings_Split (x # xs) sep =
     (if x = sep then [] # strings_Split xs sep
      else (case strings_Split xs sep of
              [] \<Rightarrow> [x # []]
            | p # ps \<Rightarrow> (x # p) # ps))"

text \<open>
  \<open>strings.ToLower\<close> on the ASCII letters. Bytes outside \<open>A..Z\<close> are left as they
  are; Go also lowers non-ASCII runes, but no such rune lowers to \<open>c\<close>, \<open>s\<close> or
  \<open>v\<close>, so the comparison with \<open>csv\<close>, the only use of the function in the file,
  is decided the same way.
\<close>

definition lower :: "char \<Rightarrow> char" where
  "lower c = (if 65 \<le> (of_char c :: nat) \<and> (of_char c :: nat) \<le> 90
              then char_of (of_char c + (32 :: nat)) else c)"

definition strings_ToLower :: "string \<Rightarrow> string" where
  "strings_ToLower s = map lower s"

fun strings_Join :: "string list \<Rightarrow> string \<Rightarrow> string" where
  "strings_Join [] sep = []"
| "strings_Join [x] sep = x"
| "strings_Join (x # y # ys) sep = x @ sep @ strings_Join (y # ys) sep"

text \<open>
  \<open>strconv.ParseInt(s, 10, 64)\<close>. An optional sign is picked off, \<open>ParseUint\<close>
  reads the digits into a \<open>uint64\<close> and reports a syntax error at the first byte
  that is not a decimal digit and a range error as soon as the value read so far
  exceeds \<open>2^64 - 1\<close>; the signed range is checked last. The error is a
  \<open>*strconv.NumError\<close> with the function name, the input and the cause.
\<close>

datatype NumErr = ErrSyntax | ErrRange

datatype NumError = NumError (Func: string) (Num: string) (Err: NumErr)

definition is_digit :: "char \<Rightarrow> bool" where
  "is_digit c = (48 \<le> (of_char c :: nat) \<and> (of_char c :: nat) \<le> 57)"

fun ParseUint_loop :: "nat \<Rightarrow> string \<Rightarrow> NumErr + nat" where
  "ParseUint_loop n [] = Inr n"
| "ParseUint_loop n (c # cs) =
     (if \<not> is_digit c then Inl ErrSyntax
      else if n * 10 + (of_char c - 48) > 2 ^ 64 - 1 then Inl ErrRange
      else ParseUint_loop (n * 10 + (of_char c - 48)) cs)"

definition strconv_ParseUint :: "string \<Rightarrow> NumErr + nat" where
  "strconv_ParseUint s = (if s = [] then Inl ErrSyntax else ParseUint_loop 0 s)"

definition strconv_ParseInt :: "string \<Rightarrow> NumError + int" where
  "strconv_ParseInt s0 =
     (case s0 of
        [] \<Rightarrow> Inl (NumError ''ParseInt'' s0 ErrSyntax)
      | c # cs \<Rightarrow>
          (let neg = (c = CHR ''-'');
               s = (if c = CHR ''+'' \<or> c = CHR ''-'' then cs else s0)
           in case strconv_ParseUint s of
                Inl e \<Rightarrow> Inl (NumError ''ParseInt'' s0 e)
              | Inr un \<Rightarrow>
                  if \<not> neg \<and> un \<ge> 2 ^ 63 then Inl (NumError ''ParseInt'' s0 ErrRange)
                  else if neg \<and> un > 2 ^ 63 then Inl (NumError ''ParseInt'' s0 ErrRange)
                  else Inr (if neg then - int un else int un)))"

text \<open>
  \<open>url.Values\<close> is a Go map from a key to the list of its values. It is modelled as
  an association list: the keys are looked up with \<open>map_of\<close>, and the order of the
  list stands for the order in which a \<open>range\<close> loop happens to visit the keys, which
  Go leaves unspecified. \<open>Get\<close> returns the first value of a key, or the empty string
  when the key is absent or has no value; \<open>Del\<close> removes a key.
\<close>

type_synonym Values = "(string \<times> string list) list"

definition Values_has :: "Values \<Rightarrow> string \<Rightarrow> bool" where
  "Values_has q k = (map_of q k \<noteq> None)"

definition Values_Get :: "Values \<Rightarrow> string \<Rightarrow> string" where
  "Values_Get q k = (case map_of q k of None \<Rightarrow> [] | Some [] \<Rightarrow> [] | Some (v # vs) \<Rightarrow> v)"

definition Values_Del :: "Values \<Rightarrow> string \<Rightarrow> Values" where
  "Values_Del q k = filter (\<lambda>kv. fst kv \<noteq> k) q"

subsection \<open>Configuration and errors\<close>

text \<open>
  \<open>url.URL\<close>: the file reads the field \<open>Path\<close> and the result of the method
  \<open>Query()\<close>, the parsed query parameters.
\<close>

record URL =
  Path :: string
  Query :: Values

record ExternalStorage_Workload =
  Format :: string
  Generator :: string
  Table :: string
  Version :: string
  BatchBegin :: int
  BatchEnd :: int
  Flags :: "string list"

datatype ExternalStorageProvider = ExternalStorageProvider_Unknown | ExternalStorageProvider_Workload

record ExternalStorage =
  Provider :: ExternalStorageProvider
  WorkloadConfig :: "ExternalStorage_Workload option"

text \<open>
  One constructor for each place where the file creates or passes on an error, carrying
  the arguments of the message. \<open>NotImplemented\<close> is the \<open>panic("unimplemented")\<close> of
  \<open>ReadFileAt\<close>. \<open>UnknownGenerator\<close> carries the message of the error returned by
  \<open>workload.Get\<close>, \<open>InvalidFlags\<close> the message of the error of the flag parser and
  the flags, \<open>BadRowBound\<close> the error of \<open>strconv.ParseInt\<close>, which the file returns
  as it is.
\<close>

datatype error =
    InfoMissing
  | UnsupportedFormat string
  | UnknownGenerator string
  | VersionMismatch string string string
  | InvalidFlags string "string list"
  | UnknownTable string string
  | NotImplemented
  | UnexpectedBasename
  | OperationNotSupported string
  | MalformedPath string
  | MissingVersion
  | BadRowBound NumError

text \<open>
  The message of each error the file formats itself. The text of a \<open>NumError\<close> is
  produced by \<open>strconv\<close>, not by this file, and is not modelled.
\<close>

fun Error :: "error \<Rightarrow> string option" where
  "Error InfoMissing = Some ''workload upload requested but info missing''"
| "Error (UnsupportedFormat f) = Some (''unsupported format: '' @ f)"
| "Error (UnknownGenerator msg) = Some msg"
| "Error (VersionMismatch name expected actual) =
     Some (''expected '' @ name @ '' version '' @ [CHR 0x22] @ expected @ [CHR 0x22]
           @ '' but got '' @ [CHR 0x22] @ actual @ [CHR 0x22])"
| "Error (InvalidFlags msg fs) =
     Some (''parsing parameters '' @ strings_Join fs '' '' @ '': '' @ msg)"
| "Error (UnknownTable t g) = Some (''unknown table '' @ t @ '' for generator '' @ g)"
| "Error NotImplemented = Some ''unimplemented''"
| "Error UnexpectedBasename = Some ''basenames are not supported by workload storage''"
| "Error (OperationNotSupported what) = Some (''workload storage does not support '' @ what)"
| "Error (MalformedPath p) =
     Some (''path must be of the form /<format>/<generator>/<table>: '' @ p)"
| "Error MissingVersion = Some ''parameter version is required''"
| "Error (BadRowBound e) = None"

subsection \<open>ParseWorkloadConfig\<close>

text \<open>
  The function returns the configuration together with the error; on every error path
  the configuration returned has the provider set and no workload configuration. The
  query parameters \<open>q\<close> are updated in place by \<open>q.Del\<close>; the model passes the updated
  collection on. A row bound is read, and its key deleted, only when \<open>q.Get\<close> returns a
  non-empty string.
\<close>

definition flag :: "string \<Rightarrow> string \<Rightarrow> string" where
  "flag k v = ''--'' @ k @ ''='' @ v"

definition flags_of :: "Values \<Rightarrow> string list" where
  "flags_of q = concat (map (\<lambda>kv. map (flag (fst kv)) (snd kv)) q)"

definition ParseWorkloadConfig :: "URL \<Rightarrow> ExternalStorage \<times> error option" where
  "ParseWorkloadConfig uri =
     (let conf0 = \<lparr>Provider = ExternalStorageProvider_Workload, WorkloadConfig = None\<rparr>;
          c0 = \<lparr>Format = [], Generator = [], Table = [], Version = [],
                BatchBegin = 0, BatchEnd = 0, Flags = []\<rparr>;
          pathParts = strings_Split (strings_Trim (Path uri) (CHR ''/'')) (CHR ''/'')
      in if length pathParts \<noteq> 3 then (conf0, Some (MalformedPath (Path uri)))
         else
           let c1 = c0\<lparr>Format := pathParts ! 0, Generator := pathParts ! 1,
                       Table := pathParts ! 2\<rparr>;
               q0 = Query uri
           in if \<not> Values_has q0 ''version'' then (conf0, Some MissingVersion)
              else
                let c2 = c1\<lparr>Version := Values_Get q0 ''version''\<rparr>;
                    q1 = Values_Del q0 ''version'';
                    s = Values_Get q1 ''row-start''
                in case (if length s > 0
                         then (case strconv_ParseInt s of
                                 Inl err \<Rightarrow> Inl err
                               | Inr n \<Rightarrow> Inr (c2\<lparr>BatchBegin := n\<rparr>, Values_Del q1 ''row-start''))
                         else Inr (c2, q1)) of
                     Inl err \<Rightarrow> (conf0, Some (BadRowBound err))
                   | Inr (c3, q2) \<Rightarrow>
                       (let e = Values_Get q2 ''row-end''
                        in (case (if length e > 0
                                  then (case strconv_ParseInt e of
                                          Inl err \<Rightarrow> Inl err
                                        | Inr n \<Rightarrow> Inr (c3\<lparr>BatchEnd := n\<rparr>, Values_Del q2 ''row-end''))
                                  else Inr (c3, q2)) of
                              Inl err \<Rightarrow> (conf0, Some (BadRowBound err))
                            | Inr (c4, q3) \<Rightarrow>
                                (conf0\<lparr>WorkloadConfig := Some (c4\<lparr>Flags := flags_of q3\<rparr>)\<rparr>, None))))"

subsection \<open>The workload package, as far as the file uses it\<close>

text \<open>
  \<open>workload.Table\<close> is a struct; the file reads its \<open>Name\<close> and hands the whole
  table to \<open>workload.NewCSVRowsReader\<close>. The remaining fields are kept as one
  component; \<open>None\<close> is their zero value, so that the zero \<open>Table\<close> of Go is the
  table with the empty name and \<open>None\<close>.
\<close>

record 'r workload_Table =
  Table_Name :: string
  InitialRows :: "'r option"

record 'g Meta =
  Meta_Name :: string
  Meta_Version :: string
  Meta_New :: 'g

text \<open>
  The package itself is not part of the file and is a parameter of the model:
  \<open>workload_Get\<close> is the registry lookup \<open>workload.Get\<close>, returning the message of
  its error or the \<open>Meta\<close> of the generator; \<open>Flagser\<close> is the type assertion
  \<open>gen.(workload.Flagser)\<close> followed by \<open>Flags().Parse\<close>, which is absent for a
  generator without flags and otherwise returns the message of its error or the
  generator with the flags set; \<open>Tables\<close> is \<open>gen.Tables()\<close>.
\<close>

record ('g, 'r) workload =
  workload_Get :: "string \<Rightarrow> string + 'g Meta"
  Flagser :: "'g \<Rightarrow> (string list \<Rightarrow> string + 'g) option"
  Tables :: "'g \<Rightarrow> 'r workload_Table list"

text \<open>The calls that leave the file, in the order in which they are made.\<close>

datatype event =
    TelemetryCount string
  | WorkloadGet string
  | MetaNew string
  | FlagsParse "string list"
  | GenTables

datatype 'r CSVRowsReader = NewCSVRowsReader "'r workload_Table" int int

datatype 'a ReadCloser = NopCloser 'a

subsection \<open>workloadStorage\<close>

record ('io, 'st) ExternalStorageContext =
  IOConf :: 'io
  Settings :: 'st

record ('g, 'r, 'io, 'st) workloadStorage =
  conf :: ExternalStorage_Workload
  ioConf :: 'io
  gen :: 'g
  table :: "'r workload_Table"
  settings :: 'st

text \<open>
  The loop of \<open>makeWorkloadStorage\<close> over \<open>gen.Tables()\<close>: the first table with the
  requested name is stored and the loop left; \<open>s.table\<close> keeps its zero value when
  no table matches.
\<close>

fun find_table :: "'r workload_Table list \<Rightarrow> string \<Rightarrow> 'r workload_Table" where
  "find_table [] name = \<lparr>Table_Name = [], InitialRows = None\<rparr>"
| "find_table (t # ts) name = (if Table_Name t = name then t else find_table ts name)"

definition makeWorkloadStorage ::
  "('g, 'r) workload \<Rightarrow> ('io, 'st) ExternalStorageContext \<Rightarrow> ExternalStorage
     \<Rightarrow> event list \<times> (error + ('g, 'r, 'io, 'st) workloadStorage)" where
  "makeWorkloadStorage W args dest =
     (let t0 = [TelemetryCount ''external-io.workload'']
      in case WorkloadConfig dest of
           None \<Rightarrow> (t0, Inl InfoMissing)
         | Some c \<Rightarrow>
             if strings_ToLower (Format c) \<noteq> ''csv''
             then (t0, Inl (UnsupportedFormat (Format c)))
             else
               (let t1 = t0 @ [WorkloadGet (Generator c)]
                in case workload_Get W (Generator c) of
                     Inl err \<Rightarrow> (t1, Inl (UnknownGenerator err))
                   | Inr meta \<Rightarrow>
                       if Meta_Version meta \<noteq> Version c
                       then (t1, Inl (VersionMismatch (Meta_Name meta) (Version c)
                                        (Meta_Version meta)))
                       else
                         (let t2 = t1 @ [MetaNew (Meta_Name meta)];
                              g = Meta_New meta
                          in case (case Flagser W g of
                                     None \<Rightarrow> (t2, Inr g)
                                   | Some parse \<Rightarrow> (t2 @ [FlagsParse (Flags c)], parse (Flags c))) of
                               (t3, Inl err) \<Rightarrow> (t3, Inl (InvalidFlags err (Flags c)))
                             | (t3, Inr g') \<Rightarrow>
                                 (let s = \<lparr>conf = c, ioConf = IOConf args, gen = g',
                                           table = find_table (Tables W g') (Table c),
                                           settings = Settings args\<rparr>
                                  in if Table_Name (table s) = []
                                     then (t3 @ [GenTables],
                                           Inl (UnknownTable (Table c) (Meta_Name meta)))
                                     else (t3 @ [GenTables], Inr s)))))"

text \<open>
  The methods take the receiver and return it with their result, so that what a call
  does to the adapter is part of the model. \<open>ReadFileAt\<close> panics; the other
  unsupported operations return an error. \<open>int(...)\<close> of the two bounds is the
  identity: \<open>int\<close> has 64 bits on the platforms the program is built for.
\<close>

definition Conf :: "('g, 'r, 'io, 'st) workloadStorage \<Rightarrow> ExternalStorage" where
  "Conf s = \<lparr>Provider = ExternalStorageProvider_Workload, WorkloadConfig = Some (conf s)\<rparr>"

definition ReadFileAt ::
  "('g, 'r, 'io, 'st) workloadStorage \<Rightarrow> string \<Rightarrow> int
     \<Rightarrow> (error + 'r CSVRowsReader ReadCloser \<times> int) \<times> ('g, 'r, 'io, 'st) workloadStorage" where
  "ReadFileAt s basename offset = (Inl NotImplemented, s)"

definition ReadFile ::
  "('g, 'r, 'io, 'st) workloadStorage \<Rightarrow> string
     \<Rightarrow> (error + 'r CSVRowsReader ReadCloser) \<times> ('g, 'r, 'io, 'st) workloadStorage" where
  "ReadFile s basename =
     (if basename \<noteq> [] then (Inl UnexpectedBasename, s)
      else (Inr (NopCloser (NewCSVRowsReader (table s) (BatchBegin (conf s)) (BatchEnd (conf s)))), s))"

definition WriteFile ::
  "('g, 'r, 'io, 'st) workloadStorage \<Rightarrow> string \<Rightarrow> string
     \<Rightarrow> error option \<times> ('g, 'r, 'io, 'st) workloadStorage" where
  "WriteFile s basename content = (Some (OperationNotSupported ''writes''), s)"

definition ListFiles ::
  "('g, 'r, 'io, 'st) workloadStorage \<Rightarrow> string
     \<Rightarrow> (string list \<times> error option) \<times> ('g, 'r, 'io, 'st) workloadStorage" where
  "ListFiles s pattern = (([], Some (OperationNotSupported ''listing files'')), s)"

definition Delete ::
  "('g, 'r, 'io, 'st) workloadStorage \<Rightarrow> string
     \<Rightarrow> error option \<times> ('g, 'r, 'io, 'st) workloadStorage" where
  "Delete s basename = (Some (OperationNotSupported ''deletes''), s)"

definition Size ::
  "('g, 'r, 'io, 'st) workloadStorage \<Rightarrow> string
     \<Rightarrow> (int \<times> error option) \<times> ('g, 'r, 'io, 'st) workloadStorage" where
  "Size s basename = ((0, Some (OperationNotSupported ''sizing'')), s)"

definition Close :: "('g, 'r, 'io, 'st) workloadStorage \<Rightarrow> error option \<times> ('g, 'r, 'io, 'st) workloadStorage" where
  "Close s = (None, s)"

subsection \<open>A registry with one generator, for the concrete instances\<close>

text \<open>
  The generator \<open>bank\<close> of version \<open>1.0.0\<close> with the single table \<open>accounts\<close>; the
  state of the generator is the list of flags it was given, and it rejects every flag
  list that contains the empty flag.
\<close>

definition bank :: "(string list, nat) workload" where
  "bank =
     \<lparr>workload_Get = (\<lambda>name. if name = ''bank''
                              then Inr \<lparr>Meta_Name = ''bank'', Meta_Version = ''1.0.0'', Meta_New = []\<rparr>
                              else Inl (''unknown generator: '' @ name)),
      Flagser = (\<lambda>g. Some (\<lambda>fs. if [] \<in> set fs then Inl ''bad flag'' else Inr fs)),
      Tables = (\<lambda>g. [\<lparr>Table_Name = ''accounts'', InitialRows = Some 1000\<rparr>])\<rparr>"


definition noargs :: "(unit, unit) ExternalStorageContext" where
  "noargs = \<lparr>IOConf = (), Settings = ()\<rparr>"

text \<open>
  The keys that \<open>ParseWorkloadConfig\<close> deletes from the query parameters before the rest
  become flags: \<open>version\<close> always, \<open>row-start\<close> and \<open>row-end\<close> only inside the
  branch taken when \<open>q.Get\<close> of the key is not empty.
\<close>

definition deleted :: "Values \<Rightarrow> string \<Rightarrow> bool" where
  "deleted q k =
     (k = ''version''
      \<or> (k = ''row-start'' \<and> Values_Get q ''row-start'' \<noteq> [])
      \<or> (k = ''row-end'' \<and> Values_Get q ''row-end'' \<noteq> []))"

text \<open>A request for the table of \<open>bank\<close>, and the adapter built from it.\<close>

definition bank_request :: ExternalStorage_Workload where
  "bank_request =
     \<lparr>Format = ''csv'', Generator = ''bank'', Table = ''accounts'', Version = ''1.0.0'',
      BatchBegin = 0, BatchEnd = 10, Flags = []\<rparr>"

definition bank_adapter :: "(string list, nat, unit, unit) workloadStorage" where
  "bank_adapter =
     \<lparr>conf = bank_request, ioConf = (), gen = [],
      table = \<lparr>Table_Name = ''accounts'', InitialRows = Some 1000\<rparr>, settings = ()\<rparr>"

section \<open>Properties\<close>

subsection \<open>Splitting the path\<close>

lemma strings_Split_length: "length (strings_Split s sep) = Suc (count_list s sep)"
  by (induction s) (auto split: list.splits)

lemma strings_Split_not_Nil: "strings_Split s sep \<noteq> []"
  using strings_Split_length[of s sep] by auto

subsection \<open>Query parameters\<close>

lemma map_of_Values_Del: "map_of (Values_Del q k) k' = (if k' = k then None else map_of q k')"
  by (induction q) (auto simp: Values_Del_def)

lemma Values_Get_Del: "k' \<noteq> k \<Longrightarrow> Values_Get (Values_Del q k) k' = Values_Get q k'"
  by (simp add: Values_Get_def map_of_Values_Del)

lemma Values_Get_absent: "\<not> Values_has q k \<Longrightarrow> Values_Get q k = []"
  by (simp add: Values_Get_def Values_has_def)

lemma Values_Get_first: "map_of q k = Some (v # vs) \<Longrightarrow> Values_Get q k = v"
  by (simp add: Values_Get_def)

text \<open>The three deletions, done one after the other, leave the keys that are not \<open>deleted\<close>.\<close>

lemma Values_Del_deleted:
  "filter (\<lambda>kv. \<not> deleted q (fst kv)) q =
     (let q1 = Values_Del q ''version'';
          q2 = (if Values_Get q ''row-start'' \<noteq> [] then Values_Del q1 ''row-start'' else q1)
      in if Values_Get q ''row-end'' \<noteq> [] then Values_Del q2 ''row-end'' else q2)"
  by (auto simp: Values_Del_def deleted_def Let_def intro: filter_cong)

subsection \<open>The paths through ParseWorkloadConfig\<close>

lemma ParseWorkloadConfig_malformed:
  "length (strings_Split (strings_Trim (Path uri) (CHR ''/'')) (CHR ''/'')) \<noteq> 3 \<Longrightarrow>
   ParseWorkloadConfig uri =
     (\<lparr>Provider = ExternalStorageProvider_Workload, WorkloadConfig = None\<rparr>,
      Some (MalformedPath (Path uri)))"
  by (simp add: ParseWorkloadConfig_def Let_def)

lemma ParseWorkloadConfig_missing:
  "length (strings_Split (strings_Trim (Path uri) (CHR ''/'')) (CHR ''/'')) = 3 \<Longrightarrow>
   \<not> Values_has (Query uri) ''version'' \<Longrightarrow>
   ParseWorkloadConfig uri =
     (\<lparr>Provider = ExternalStorageProvider_Workload, WorkloadConfig = None\<rparr>,
      Some MissingVersion)"
  by (simp add: ParseWorkloadConfig_def Let_def)

lemma ParseWorkloadConfig_bad_start:
  "length (strings_Split (strings_Trim (Path uri) (CHR ''/'')) (CHR ''/'')) = 3 \<Longrightarrow>
   Values_has (Query uri) ''version'' \<Longrightarrow>
   Values_Get (Query uri) ''row-start'' \<noteq> [] \<Longrightarrow>
   strconv_ParseInt (Values_Get (Query uri) ''row-start'') = Inl err \<Longrightarrow>
   ParseWorkloadConfig uri =
     (\<lparr>Provider = ExternalStorageProvider_Workload, WorkloadConfig = None\<rparr>,
      Some (BadRowBound err))"
  by (simp add: ParseWorkloadConfig_def Let_def Values_Get_Del)

lemma ParseWorkloadConfig_bad_end:
  "length (strings_Split (strings_Trim (Path uri) (CHR ''/'')) (CHR ''/'')) = 3 \<Longrightarrow>
   Values_has (Query uri) ''version'' \<Longrightarrow>
   Values_Get (Query uri) ''row-start'' = [] \<or>
     strconv_ParseInt (Values_Get (Query uri) ''row-start'') = Inr b \<Longrightarrow>
   Values_Get (Query uri) ''row-end'' \<noteq> [] \<Longrightarrow>
   strconv_ParseInt (Values_Get (Query uri) ''row-end'') = Inl err \<Longrightarrow>
   ParseWorkloadConfig uri =
     (\<lparr>Provider = ExternalStorageProvider_Workload, WorkloadConfig = None\<rparr>,
      Some (BadRowBound err))"
  by (auto simp add: ParseWorkloadConfig_def Let_def Values_Get_Del)

lemma ParseWorkloadConfig_ok:
  assumes "length (strings_Split (strings_Trim (Path uri) (CHR ''/'')) (CHR ''/'')) = 3"
    and "Values_has (Query uri) ''version''"
    and "Values_Get (Query uri) ''row-start'' = [] \<or>
         strconv_ParseInt (Values_Get (Query uri) ''row-start'') = Inr b"
    and "Values_Get (Query uri) ''row-end'' = [] \<or>
         strconv_ParseInt (Values_Get (Query uri) ''row-end'') = Inr e"
  shows "ParseWorkloadConfig uri =
     (\<lparr>Provider = ExternalStorageProvider_Workload,
       WorkloadConfig = Some
         \<lparr>Format = strings_Split (strings_Trim (Path uri) (CHR ''/'')) (CHR ''/'') ! 0,
          Generator = strings_Split (strings_Trim (Path uri) (CHR ''/'')) (CHR ''/'') ! 1,
          Table = strings_Split (strings_Trim (Path uri) (CHR ''/'')) (CHR ''/'') ! 2,
          Version = Values_Get (Query uri) ''version'',
          BatchBegin = (if Values_Get (Query uri) ''row-start'' = [] then 0 else b),
          BatchEnd = (if Values_Get (Query uri) ''row-end'' = [] then 0 else e),
          Flags = flags_of (filter (\<lambda>kv. \<not> deleted (Query uri) (fst kv)) (Query uri))\<rparr>\<rparr>,
      None)"
  using assms unfolding Values_Del_deleted
  by (auto simp add: ParseWorkloadConfig_def Let_def Values_Get_Del)

text \<open>
  Every URI takes one of the five paths: a result without an error is the result of
  \<open>ParseWorkloadConfig_ok\<close>.
\<close>

lemma ParseWorkloadConfig_success:
  assumes "snd (ParseWorkloadConfig uri) = None"
  shows "length (strings_Split (strings_Trim (Path uri) (CHR ''/'')) (CHR ''/'')) = 3
    \<and> Values_has (Query uri) ''version''
    \<and> (Values_Get (Query uri) ''row-start'' = [] \<or>
        (\<exists>b. strconv_ParseInt (Values_Get (Query uri) ''row-start'') = Inr b))
    \<and> (Values_Get (Query uri) ''row-end'' = [] \<or>
        (\<exists>e. strconv_ParseInt (Values_Get (Query uri) ''row-end'') = Inr e))"
proof -
  have len: "length (strings_Split (strings_Trim (Path uri) (CHR ''/'')) (CHR ''/'')) = 3"
    using assms ParseWorkloadConfig_malformed[of uri] by fastforce
  have ver: "Values_has (Query uri) ''version''"
    using assms len ParseWorkloadConfig_missing[of uri] by fastforce
  have st: "Values_Get (Query uri) ''row-start'' = [] \<or>
        (\<exists>b. strconv_ParseInt (Values_Get (Query uri) ''row-start'') = Inr b)"
  proof (cases "strconv_ParseInt (Values_Get (Query uri) ''row-start'')")
    case (Inl err)
    then show ?thesis
      using assms ParseWorkloadConfig_bad_start[OF len ver _ Inl] by fastforce
  next
    case (Inr b)
    then show ?thesis by simp
  qed
  have en: "Values_Get (Query uri) ''row-end'' = [] \<or>
        (\<exists>e. strconv_ParseInt (Values_Get (Query uri) ''row-end'') = Inr e)"
  proof (cases "strconv_ParseInt (Values_Get (Query uri) ''row-end'')")
    case (Inl err)
    from st obtain b where "Values_Get (Query uri) ''row-start'' = [] \<or>
        strconv_ParseInt (Values_Get (Query uri) ''row-start'') = Inr b" by blast
    then show ?thesis
      using assms ParseWorkloadConfig_bad_end[OF len ver _ _ Inl, of b] by fastforce
  next
    case (Inr e)
    then show ?thesis by simp
  qed
  from len ver st en show ?thesis by blast
qed

subsection \<open>Lower case\<close>

lemma char_eq_nat: "(x = y) = ((of_char x :: nat) = of_char y)"
  by (simp add: of_char_eq_iff)

lemma lower_eq_iff:
  "lower x = y \<longleftrightarrow>
     (if 65 \<le> (of_char x :: nat) \<and> (of_char x :: nat) \<le> 90
      then of_char x + 32 = (of_char y :: nat) else x = y)"
  by (auto simp: lower_def char_eq_nat[of "char_of _"])

lemma lower_c: "lower x = CHR ''c'' \<longleftrightarrow> x = CHR ''c'' \<or> x = CHR ''C''"
  by (auto simp: lower_eq_iff char_eq_nat[of x])

lemma lower_s: "lower x = CHR ''s'' \<longleftrightarrow> x = CHR ''s'' \<or> x = CHR ''S''"
  by (auto simp: lower_eq_iff char_eq_nat[of x])

lemma lower_v: "lower x = CHR ''v'' \<longleftrightarrow> x = CHR ''v'' \<or> x = CHR ''V''"
  by (auto simp: lower_eq_iff char_eq_nat[of x])

text \<open>The format test of \<open>makeWorkloadStorage\<close> accepts the eight spellings of \<open>csv\<close>.\<close>

lemma ToLower_csv_iff:
  "strings_ToLower f = ''csv'' \<longleftrightarrow>
     f \<in> {''csv'', ''csV'', ''cSv'', ''cSV'', ''Csv'', ''CsV'', ''CSv'', ''CSV''}"
proof -
  have "strings_ToLower f = ''csv'' \<longleftrightarrow>
        (\<exists>a b c. f = [a, b, c] \<and> lower a = CHR ''c'' \<and> lower b = CHR ''s'' \<and> lower c = CHR ''v'')"
    by (auto simp: strings_ToLower_def map_eq_Cons_conv)
  then show ?thesis
    unfolding lower_c lower_s lower_v by auto
qed

subsection \<open>The paths through makeWorkloadStorage\<close>


lemma makeWorkloadStorage_nil:
  "WorkloadConfig dest = None \<Longrightarrow>
   makeWorkloadStorage W args dest = ([TelemetryCount ''external-io.workload''], Inl InfoMissing)"
  by (simp add: makeWorkloadStorage_def)





subsection \<open>The flags\<close>

text \<open>
  The flags of a parsed request are the remaining query parameters, key by key in the
  order of the iteration and, for one key, value by value in the order of its values.
\<close>

lemma ParseWorkloadConfig_Flags:
  assumes "ParseWorkloadConfig uri =
            (\<lparr>Provider = ExternalStorageProvider_Workload, WorkloadConfig = Some c\<rparr>, None)"
  shows "Flags c = flags_of (filter (\<lambda>kv. \<not> deleted (Query uri) (fst kv)) (Query uri))"
proof -
  from assms have "snd (ParseWorkloadConfig uri) = None" by simp
  from ParseWorkloadConfig_success[OF this]
  obtain b e where ok: "length (strings_Split (strings_Trim (Path uri) (CHR ''/'')) (CHR ''/'')) = 3"
    "Values_has (Query uri) ''version''"
    "Values_Get (Query uri) ''row-start'' = [] \<or>
       strconv_ParseInt (Values_Get (Query uri) ''row-start'') = Inr b"
    "Values_Get (Query uri) ''row-end'' = [] \<or>
       strconv_ParseInt (Values_Get (Query uri) ''row-end'') = Inr e"
    by blast
  from ParseWorkloadConfig_ok[OF ok] assms show ?thesis by auto
qed

lemma ParseWorkloadConfig_Flags_nonempty_bounds:
  assumes "ParseWorkloadConfig uri =
            (\<lparr>Provider = ExternalStorageProvider_Workload, WorkloadConfig = Some c\<rparr>, None)"
    and "Values_has (Query uri) ''row-start'' \<longrightarrow> Values_Get (Query uri) ''row-start'' \<noteq> []"
    and "Values_has (Query uri) ''row-end'' \<longrightarrow> Values_Get (Query uri) ''row-end'' \<noteq> []"
  shows "Flags c = flags_of (filter
           (\<lambda>kv. fst kv \<notin> {''version'', ''row-start'', ''row-end''}) (Query uri))"
proof -
  have "filter (\<lambda>kv. \<not> deleted (Query uri) (fst kv)) (Query uri) =
        filter (\<lambda>kv. fst kv \<notin> {''version'', ''row-start'', ''row-end''}) (Query uri)"
  proof (rule filter_cong[OF refl])
    fix kv assume "kv \<in> set (Query uri)"
    then have "Values_has (Query uri) (fst kv)"
      by (simp add: Values_has_def map_of_eq_None_iff)
    with assms(2,3) show "(\<not> deleted (Query uri) (fst kv)) =
        (fst kv \<notin> {''version'', ''row-start'', ''row-end''})"
      by (auto simp: deleted_def)
  qed
  with ParseWorkloadConfig_Flags[OF assms(1)] show ?thesis by simp
qed

lemma flags_of_append: "flags_of (q1 @ q2) = flags_of q1 @ flags_of q2"
  by (simp add: flags_of_def)

lemma flags_of_key: "flags_of (q1 @ (k, vs) # q2) = flags_of q1 @ map (flag k) vs @ flags_of q2"
  by (simp add: flags_of_def)

lemma bank_adapter_bound:
  "makeWorkloadStorage bank noargs
     \<lparr>Provider = ExternalStorageProvider_Workload, WorkloadConfig = Some bank_request\<rparr>
   = ([TelemetryCount ''external-io.workload'', WorkloadGet ''bank'', MetaNew ''bank'',
       FlagsParse [], GenTables], Inr bank_adapter)"
  by (simp add: makeWorkloadStorage_def bank_def bank_request_def bank_adapter_def noargs_def
      ToLower_csv_iff)

subsection \<open>Evaluation at concrete inputs\<close>

lemmas parse_eval =
  ParseWorkloadConfig_def strings_Trim_def Values_has_def Values_Get_def Values_Del_def
  strconv_ParseInt_def strconv_ParseUint_def is_digit_def flags_of_def flag_def Let_def


subsection \<open>Binding a generator\<close>




subsection \<open>Parsing the URI\<close>

text \<open>
  C2, as it holds on the code. A path of three segments and a \<open>version\<close> parameter are
  not enough for the parse to succeed: the row bounds are parsed as well. When the path,
  trimmed and split, has exactly the three segments \<open>f\<close>, \<open>g\<close> and \<open>t\<close>, the query has
  the key \<open>version\<close>, and \<open>row-start\<close> and \<open>row-end\<close> are each empty, absent or a
  base-10 64-bit integer, the parse succeeds; format, generator and table of the request
  are the three segments, unchanged, and its version is what \<open>q.Get\<close> returns for
  \<open>version\<close>, that is the first value of the parameter, copied as it is.
\<close>

theorem ParseWorkloadConfig_segments:
  assumes "strings_Split (strings_Trim (Path uri) (CHR ''/'')) (CHR ''/'') = [f, g, t]"
    and "Values_has (Query uri) ''version''"
    and "Values_Get (Query uri) ''row-start'' = [] \<or>
         (\<exists>b. strconv_ParseInt (Values_Get (Query uri) ''row-start'') = Inr b)"
    and "Values_Get (Query uri) ''row-end'' = [] \<or>
         (\<exists>e. strconv_ParseInt (Values_Get (Query uri) ''row-end'') = Inr e)"
  shows "\<exists>c. ParseWorkloadConfig uri =
            (\<lparr>Provider = ExternalStorageProvider_Workload, WorkloadConfig = Some c\<rparr>, None)
          \<and> Format c = f \<and> Generator c = g \<and> Table c = t
          \<and> Version c = Values_Get (Query uri) ''version''
          \<and> (\<forall>v vs. map_of (Query uri) ''version'' = Some (v # vs) \<longrightarrow> Version c = v)"
proof -
  from assms(3) obtain b where b: "Values_Get (Query uri) ''row-start'' = [] \<or>
         strconv_ParseInt (Values_Get (Query uri) ''row-start'') = Inr b" by blast
  from assms(4) obtain e where e: "Values_Get (Query uri) ''row-end'' = [] \<or>
         strconv_ParseInt (Values_Get (Query uri) ''row-end'') = Inr e" by blast
  have len: "length (strings_Split (strings_Trim (Path uri) (CHR ''/'')) (CHR ''/'')) = 3"
    using assms(1) by simp
  show ?thesis
    using ParseWorkloadConfig_ok[OF len assms(2) b e] assms(1)
    by (auto simp add: Values_Get_first)
qed

text \<open>
  The URI \<open>/csv/bank/accounts?version=1.0.0&row-start=0&row-end=10\<close>.
\<close>

theorem ParseWorkloadConfig_segments_witness:
  "\<exists>c. ParseWorkloadConfig
          \<lparr>Path = ''/csv/bank/accounts'',
           Query = [(''version'', [''1.0.0'']), (''row-start'', [''0'']), (''row-end'', [''10''])]\<rparr>
        = (\<lparr>Provider = ExternalStorageProvider_Workload, WorkloadConfig = Some c\<rparr>, None)
      \<and> Format c = ''csv'' \<and> Generator c = ''bank'' \<and> Table c = ''accounts''
      \<and> Version c = ''1.0.0''"
proof -
  let ?u = "\<lparr>Path = ''/csv/bank/accounts'',
           Query = [(''version'', [''1.0.0'']), (''row-start'', [''0'']), (''row-end'', [''10''])]\<rparr>"
  have h1: "strings_Split (strings_Trim (Path ?u) (CHR ''/'')) (CHR ''/'')
      = [''csv'', ''bank'', ''accounts'']"
    by (simp add: strings_Trim_def)
  have h2: "Values_has (Query ?u) ''version''"
    by (simp add: Values_has_def)
  have h3: "Values_Get (Query ?u) ''row-start'' = [] \<or>
         (\<exists>b. strconv_ParseInt (Values_Get (Query ?u) ''row-start'') = Inr b)"
    by (simp add: parse_eval)
  have h4: "Values_Get (Query ?u) ''row-end'' = [] \<or>
         (\<exists>e. strconv_ParseInt (Values_Get (Query ?u) ''row-end'') = Inr e)"
    by (simp add: parse_eval)
  show ?thesis
    using ParseWorkloadConfig_segments[OF h1 h2 h3 h4]
    by (auto simp add: Values_Get_def)
qed

text \<open>
  C2 as the claim is written fails at \<open>/csv/bank/accounts?version=1.0.0&row-start=abc\<close>:
  three segments and a version, and the parse fails on the row bound.
\<close>

theorem ParseWorkloadConfig_segments_counterexample:
  "strings_Split (strings_Trim ''/csv/bank/accounts'' (CHR ''/'')) (CHR ''/'')
     = [''csv'', ''bank'', ''accounts'']
   \<and> Values_has [(''version'', [''1.0.0'']), (''row-start'', [''abc''])] ''version''
   \<and> snd (ParseWorkloadConfig
            \<lparr>Path = ''/csv/bank/accounts'',
             Query = [(''version'', [''1.0.0'']), (''row-start'', [''abc''])]\<rparr>)
       = Some (BadRowBound (NumError ''ParseInt'' ''abc'' ErrSyntax))"
  by (simp add: parse_eval)

text \<open>
  C3, as it holds on the code. \<open>ParseWorkloadConfig\<close> counts the segments and does not
  look into them: the parse succeeds only when the path, trimmed and split on \<open>/\<close>,
  has exactly three segments, and every path with another number of segments fails with
  \<open>MalformedPath\<close>, whose message names the shape \<open>/<format>/<generator>/<table>\<close>
  and the path. Nothing is said here about an empty segment among the three.
\<close>

theorem ParseWorkloadConfig_path_shape:
  "(snd (ParseWorkloadConfig uri) = None \<longrightarrow>
      length (strings_Split (strings_Trim (Path uri) (CHR ''/'')) (CHR ''/'')) = 3)
   \<and> (length (strings_Split (strings_Trim (Path uri) (CHR ''/'')) (CHR ''/'')) \<noteq> 3 \<longrightarrow>
        ParseWorkloadConfig uri =
          (\<lparr>Provider = ExternalStorageProvider_Workload, WorkloadConfig = None\<rparr>,
           Some (MalformedPath (Path uri)))
        \<and> Error (MalformedPath (Path uri)) =
            Some (''path must be of the form /<format>/<generator>/<table>: '' @ Path uri))"
  using ParseWorkloadConfig_success[of uri] ParseWorkloadConfig_malformed[of uri]
  by auto

text \<open>
  A path of three segments with a trailing slash, and a path of two segments.
\<close>

theorem ParseWorkloadConfig_path_shape_witness:
  "length (strings_Split (strings_Trim ''/csv/bank/accounts/'' (CHR ''/'')) (CHR ''/'')) = 3
   \<and> ParseWorkloadConfig \<lparr>Path = ''/csv/bank'', Query = [(''version'', [''1.0.0''])]\<rparr> =
       (\<lparr>Provider = ExternalStorageProvider_Workload, WorkloadConfig = None\<rparr>,
        Some (MalformedPath ''/csv/bank''))
   \<and> Error (MalformedPath ''/csv/bank'') =
       Some ''path must be of the form /<format>/<generator>/<table>: /csv/bank''"
proof -
  have h1: "snd (ParseWorkloadConfig
      \<lparr>Path = ''/csv/bank/accounts/'', Query = [(''version'', [''1.0.0''])]\<rparr>) = None"
    by (simp add: parse_eval)
  have h2: "length (strings_Split (strings_Trim
      (Path \<lparr>Path = ''/csv/bank'', Query = [(''version'', [''1.0.0''])]\<rparr>) (CHR ''/'')) (CHR ''/'')) \<noteq> 3"
    by (simp add: strings_Trim_def)
  show ?thesis
    using ParseWorkloadConfig_path_shape
        [of "\<lparr>Path = ''/csv/bank/accounts/'', Query = [(''version'', [''1.0.0''])]\<rparr>",
         THEN conjunct1, THEN mp, OF h1]
      ParseWorkloadConfig_path_shape
        [of "\<lparr>Path = ''/csv/bank'', Query = [(''version'', [''1.0.0''])]\<rparr>",
         THEN conjunct2, THEN mp, OF h2]
    by simp
qed

text \<open>
  C3 as the claim is written fails at \<open>/csv//accounts?version=1.0.0\<close>: the second of
  the three segments is empty and the parse succeeds, with the empty generator name.
\<close>

theorem ParseWorkloadConfig_path_shape_counterexample:
  "strings_Split (strings_Trim ''/csv//accounts'' (CHR ''/'')) (CHR ''/'')
     = [''csv'', [], ''accounts'']
   \<and> ParseWorkloadConfig \<lparr>Path = ''/csv//accounts'', Query = [(''version'', [''1.0.0''])]\<rparr>
     = (\<lparr>Provider = ExternalStorageProvider_Workload,
         WorkloadConfig = Some \<lparr>Format = ''csv'', Generator = [], Table = ''accounts'',
           Version = ''1.0.0'', BatchBegin = 0, BatchEnd = 0, Flags = []\<rparr>\<rparr>, None)"
  by (simp add: parse_eval)




text \<open>
  C5, as it holds on the code. A row bound is parsed only when \<open>q.Get\<close> of its key is
  not empty, so a parameter whose first value is empty is treated as an absent one. For
  a URI with a path of three segments and a \<open>version\<close>: when the first value of
  \<open>row-start\<close> is not empty and is no base-10 64-bit integer, the parse fails with the
  \<open>BadRowBound\<close> of \<open>strconv.ParseInt\<close>; when the first value of \<open>row-end\<close> is
  not empty and is no such integer, the parse fails with a \<open>BadRowBound\<close>. In every
  request parsed with success, each bound is 0 when the first value of its parameter is
  empty or the parameter is absent, and is otherwise the integer that
  \<open>strconv.ParseInt\<close> reads from that value.
\<close>

theorem ParseWorkloadConfig_row_bounds:
  "(length (strings_Split (strings_Trim (Path uri) (CHR ''/'')) (CHR ''/'')) = 3
      \<and> Values_has (Query uri) ''version''
      \<and> Values_Get (Query uri) ''row-start'' \<noteq> []
      \<and> strconv_ParseInt (Values_Get (Query uri) ''row-start'') = Inl err \<longrightarrow>
        snd (ParseWorkloadConfig uri) = Some (BadRowBound err))
   \<and> (length (strings_Split (strings_Trim (Path uri) (CHR ''/'')) (CHR ''/'')) = 3
      \<and> Values_has (Query uri) ''version''
      \<and> Values_Get (Query uri) ''row-end'' \<noteq> []
      \<and> strconv_ParseInt (Values_Get (Query uri) ''row-end'') = Inl err' \<longrightarrow>
        (\<exists>x. snd (ParseWorkloadConfig uri) = Some (BadRowBound x)))
   \<and> (\<forall>c. ParseWorkloadConfig uri =
            (\<lparr>Provider = ExternalStorageProvider_Workload, WorkloadConfig = Some c\<rparr>, None) \<longrightarrow>
        (if Values_Get (Query uri) ''row-start'' = [] then BatchBegin c = 0
         else strconv_ParseInt (Values_Get (Query uri) ''row-start'') = Inr (BatchBegin c))
      \<and> (if Values_Get (Query uri) ''row-end'' = [] then BatchEnd c = 0
         else strconv_ParseInt (Values_Get (Query uri) ''row-end'') = Inr (BatchEnd c))
      \<and> (\<not> Values_has (Query uri) ''row-start'' \<longrightarrow> BatchBegin c = 0)
      \<and> (\<not> Values_has (Query uri) ''row-end'' \<longrightarrow> BatchEnd c = 0))"
proof (intro conjI allI impI)
  assume "length (strings_Split (strings_Trim (Path uri) (CHR ''/'')) (CHR ''/'')) = 3
      \<and> Values_has (Query uri) ''version''
      \<and> Values_Get (Query uri) ''row-start'' \<noteq> []
      \<and> strconv_ParseInt (Values_Get (Query uri) ''row-start'') = Inl err"
  then show "snd (ParseWorkloadConfig uri) = Some (BadRowBound err)"
    using ParseWorkloadConfig_bad_start[of uri err] by simp
next
  assume h: "length (strings_Split (strings_Trim (Path uri) (CHR ''/'')) (CHR ''/'')) = 3
      \<and> Values_has (Query uri) ''version''
      \<and> Values_Get (Query uri) ''row-end'' \<noteq> []
      \<and> strconv_ParseInt (Values_Get (Query uri) ''row-end'') = Inl err'"
  show "\<exists>x. snd (ParseWorkloadConfig uri) = Some (BadRowBound x)"
  proof (cases "Values_Get (Query uri) ''row-start'' = []")
    case True
    then show ?thesis using h ParseWorkloadConfig_bad_end[of uri _ err'] by simp
  next
    case False
    show ?thesis
    proof (cases "strconv_ParseInt (Values_Get (Query uri) ''row-start'')")
      case (Inl x)
      then show ?thesis using h False ParseWorkloadConfig_bad_start[of uri x] by simp
    next
      case (Inr b)
      then show ?thesis using h ParseWorkloadConfig_bad_end[of uri b err'] by simp
    qed
  qed
next
  fix c
  assume s: "ParseWorkloadConfig uri =
            (\<lparr>Provider = ExternalStorageProvider_Workload, WorkloadConfig = Some c\<rparr>, None)"
  then have "snd (ParseWorkloadConfig uri) = None" by simp
  from ParseWorkloadConfig_success[OF this]
  obtain b e where ok: "length (strings_Split (strings_Trim (Path uri) (CHR ''/'')) (CHR ''/'')) = 3"
    "Values_has (Query uri) ''version''"
    "Values_Get (Query uri) ''row-start'' = [] \<or>
       strconv_ParseInt (Values_Get (Query uri) ''row-start'') = Inr b"
    "Values_Get (Query uri) ''row-end'' = [] \<or>
       strconv_ParseInt (Values_Get (Query uri) ''row-end'') = Inr e"
    by blast
  from ParseWorkloadConfig_ok[OF ok] s
  have bb: "BatchBegin c = (if Values_Get (Query uri) ''row-start'' = [] then 0 else b)"
    and be: "BatchEnd c = (if Values_Get (Query uri) ''row-end'' = [] then 0 else e)"
    by auto
  show "if Values_Get (Query uri) ''row-start'' = [] then BatchBegin c = 0
         else strconv_ParseInt (Values_Get (Query uri) ''row-start'') = Inr (BatchBegin c)"
    using bb ok(3) by auto
  show "if Values_Get (Query uri) ''row-end'' = [] then BatchEnd c = 0
         else strconv_ParseInt (Values_Get (Query uri) ''row-end'') = Inr (BatchEnd c)"
    using be ok(4) by auto
  show "BatchBegin c = 0" if "\<not> Values_has (Query uri) ''row-start''"
    using bb Values_Get_absent[OF that] by simp
  show "BatchEnd c = 0" if "\<not> Values_has (Query uri) ''row-end''"
    using be Values_Get_absent[OF that] by simp
qed

text \<open>
  A \<open>row-start\<close> with a syntax error, a \<open>row-end\<close> one above the largest \<open>int64\<close>,
  and the \<open>row-start\<close> \<open>-5\<close> with no \<open>row-end\<close>.
\<close>

theorem ParseWorkloadConfig_row_bounds_witness:
  "snd (ParseWorkloadConfig
         \<lparr>Path = ''/csv/bank/accounts'',
          Query = [(''version'', [''1.0.0'']), (''row-start'', [''1x''])]\<rparr>)
     = Some (BadRowBound (NumError ''ParseInt'' ''1x'' ErrSyntax))
   \<and> (\<exists>x. snd (ParseWorkloadConfig
         \<lparr>Path = ''/csv/bank/accounts'',
          Query = [(''row-end'', [''9223372036854775808'']), (''version'', [''1.0.0''])]\<rparr>)
     = Some (BadRowBound x))
   \<and> (\<exists>c. ParseWorkloadConfig
         \<lparr>Path = ''/csv/bank/accounts'',
          Query = [(''version'', [''1.0.0'']), (''row-start'', [''-5''])]\<rparr>
       = (\<lparr>Provider = ExternalStorageProvider_Workload, WorkloadConfig = Some c\<rparr>, None)
       \<and> BatchBegin c = - 5 \<and> BatchEnd c = 0)"
proof -
  let ?u1 = "\<lparr>Path = ''/csv/bank/accounts'',
          Query = [(''version'', [''1.0.0'']), (''row-start'', [''1x''])]\<rparr>"
  let ?u2 = "\<lparr>Path = ''/csv/bank/accounts'',
          Query = [(''row-end'', [''9223372036854775808'']), (''version'', [''1.0.0''])]\<rparr>"
  let ?u3 = "\<lparr>Path = ''/csv/bank/accounts'',
          Query = [(''version'', [''1.0.0'']), (''row-start'', [''-5''])]\<rparr>"
  have h1: "length (strings_Split (strings_Trim (Path ?u1) (CHR ''/'')) (CHR ''/'')) = 3
      \<and> Values_has (Query ?u1) ''version''
      \<and> Values_Get (Query ?u1) ''row-start'' \<noteq> []
      \<and> strconv_ParseInt (Values_Get (Query ?u1) ''row-start'')
          = Inl (NumError ''ParseInt'' ''1x'' ErrSyntax)"
    by (simp add: parse_eval)
  have h2: "length (strings_Split (strings_Trim (Path ?u2) (CHR ''/'')) (CHR ''/'')) = 3
      \<and> Values_has (Query ?u2) ''version''
      \<and> Values_Get (Query ?u2) ''row-end'' \<noteq> []
      \<and> strconv_ParseInt (Values_Get (Query ?u2) ''row-end'')
          = Inl (NumError ''ParseInt'' ''9223372036854775808'' ErrRange)"
    by (simp add: parse_eval)
  have h3: "Values_Get (Query ?u3) ''row-start'' = ''-5'' \<and> strconv_ParseInt ''-5'' = Inr (- 5)
      \<and> \<not> Values_has (Query ?u3) ''row-end''"
    by (simp add: parse_eval)
  have a: "snd (ParseWorkloadConfig ?u1) = Some (BadRowBound (NumError ''ParseInt'' ''1x'' ErrSyntax))"
    using ParseWorkloadConfig_row_bounds[of ?u1, THEN conjunct1, THEN mp, OF h1] .
  have b: "\<exists>x. snd (ParseWorkloadConfig ?u2) = Some (BadRowBound x)"
    using ParseWorkloadConfig_row_bounds[of ?u2, THEN conjunct2, THEN conjunct1, THEN mp, OF h2] .
  have h4: "\<exists>c. ParseWorkloadConfig ?u3
       = (\<lparr>Provider = ExternalStorageProvider_Workload, WorkloadConfig = Some c\<rparr>, None)"
    by (simp add: parse_eval)
  have c: "\<exists>c. ParseWorkloadConfig ?u3
       = (\<lparr>Provider = ExternalStorageProvider_Workload, WorkloadConfig = Some c\<rparr>, None)
       \<and> BatchBegin c = - 5 \<and> BatchEnd c = 0"
    using ParseWorkloadConfig_row_bounds[of ?u3, THEN conjunct2, THEN conjunct2] h3 h4
    by auto
  from a b c show ?thesis by blast
qed

text \<open>
  C5 as the claim is written fails at \<open>/csv/bank/accounts?version=1.0.0&row-start=\<close>:
  the parameter is present, its value, the empty string, is no integer, and the parse
  succeeds with the bound 0.
\<close>

theorem ParseWorkloadConfig_row_bounds_counterexample:
  "Values_has [(''version'', [''1.0.0'']), (''row-start'', [''''])] ''row-start''
   \<and> map_of [(''version'', [''1.0.0'']), (''row-start'', [''''])] ''row-start'' = Some ['''']
   \<and> strconv_ParseInt [] = Inl (NumError ''ParseInt'' [] ErrSyntax)
   \<and> ParseWorkloadConfig
        \<lparr>Path = ''/csv/bank/accounts'',
         Query = [(''version'', [''1.0.0'']), (''row-start'', [''''])]\<rparr>
     = (\<lparr>Provider = ExternalStorageProvider_Workload,
         WorkloadConfig = Some \<lparr>Format = ''csv'', Generator = ''bank'', Table = ''accounts'',
           Version = ''1.0.0'', BatchBegin = 0, BatchEnd = 0, Flags = [''--row-start='']\<rparr>\<rparr>,
        None)"
  by (simp add: parse_eval)

text \<open>
  C6 does not hold on the code. \<open>q.Del\<close> of a row bound stands inside the branch that
  parses it, so the key of a bound whose first value is empty stays among the query
  parameters and is emitted as a flag. At
  \<open>/csv/bank/accounts?row-end=&seed=1&seed=2&version=1.0.0\<close> the flags of the parsed
  request contain \<open>--row-end=\<close>.
\<close>

theorem row_end_flag_leak:
  "ParseWorkloadConfig
     \<lparr>Path = ''/csv/bank/accounts'',
      Query = [(''row-end'', ['''']), (''seed'', [''1'', ''2'']), (''version'', [''1.0.0''])]\<rparr>
   = (\<lparr>Provider = ExternalStorageProvider_Workload,
       WorkloadConfig = Some \<lparr>Format = ''csv'', Generator = ''bank'', Table = ''accounts'',
         Version = ''1.0.0'', BatchBegin = 0, BatchEnd = 0,
         Flags = [''--row-end='', ''--seed=1'', ''--seed=2'']\<rparr>\<rparr>,
      None)"
  by (simp add: parse_eval)

text \<open>
  C7, as it holds on the code. The path is checked before the query: for every URI
  whose path, trimmed and split, has exactly three segments and whose query does not
  have the key \<open>version\<close>, the parse fails with \<open>MissingVersion\<close>, whatever the
  segments and the other query parameters are.
\<close>

theorem ParseWorkloadConfig_version_required:
  assumes "length (strings_Split (strings_Trim (Path uri) (CHR ''/'')) (CHR ''/'')) = 3"
    and "\<not> Values_has (Query uri) ''version''"
  shows "ParseWorkloadConfig uri =
           (\<lparr>Provider = ExternalStorageProvider_Workload, WorkloadConfig = None\<rparr>,
            Some MissingVersion)
         \<and> Error MissingVersion = Some ''parameter version is required''"
  using ParseWorkloadConfig_missing[OF assms] by simp

text \<open>
  The URI \<open>/csv/bank/accounts?row-start=abc&seed=1\<close>: the missing version is reported,
  not the row bound.
\<close>

theorem ParseWorkloadConfig_version_required_witness:
  "ParseWorkloadConfig
     \<lparr>Path = ''/csv/bank/accounts'', Query = [(''row-start'', [''abc'']), (''seed'', [''1''])]\<rparr>
   = (\<lparr>Provider = ExternalStorageProvider_Workload, WorkloadConfig = None\<rparr>, Some MissingVersion)"
proof -
  let ?u = "\<lparr>Path = ''/csv/bank/accounts'', Query = [(''row-start'', [''abc'']), (''seed'', [''1''])]\<rparr>"
  have h1: "length (strings_Split (strings_Trim (Path ?u) (CHR ''/'')) (CHR ''/'')) = 3"
    by (simp add: strings_Trim_def)
  have h2: "\<not> Values_has (Query ?u) ''version''"
    by (simp add: Values_has_def)
  show ?thesis
    using ParseWorkloadConfig_version_required[OF h1 h2] by simp
qed

text \<open>
  C7 as the claim is written fails at \<open>/csv/bank\<close>: there is no \<open>version\<close>, and
  the parse fails with \<open>MalformedPath\<close>.
\<close>

theorem ParseWorkloadConfig_version_required_counterexample:
  "\<not> Values_has [] ''version''
   \<and> ParseWorkloadConfig \<lparr>Path = ''/csv/bank'', Query = []\<rparr>
     = (\<lparr>Provider = ExternalStorageProvider_Workload, WorkloadConfig = None\<rparr>,
        Some (MalformedPath ''/csv/bank''))"
  by (simp add: parse_eval)

subsection \<open>The operations of the adapter\<close>

text \<open>
  C8. On every adapter, and so on every adapter that \<open>makeWorkloadStorage\<close> returns,
  \<open>ReadFile\<close> with a basename that is not empty fails with \<open>UnexpectedBasename\<close>,
  returns no reader and leaves the adapter as it is, whatever its configuration; with
  the empty basename it returns the reader of the rows of the bound table between the
  two bounds. A reader is returned only for the empty basename.
\<close>

theorem ReadFile_basename:
  "(basename \<noteq> [] \<longrightarrow> ReadFile s basename = (Inl UnexpectedBasename, s))
   \<and> ReadFile s [] =
       (Inr (NopCloser (NewCSVRowsReader (table s) (BatchBegin (conf s)) (BatchEnd (conf s)))), s)
   \<and> ((\<exists>r. fst (ReadFile s basename) = Inr r) \<longleftrightarrow> basename = [])
   \<and> Error UnexpectedBasename = Some ''basenames are not supported by workload storage''"
  by (simp add: ReadFile_def)

text \<open>The adapter bound to the table \<open>accounts\<close> of \<open>bank\<close>, read with and without a basename.\<close>

theorem ReadFile_basename_witness:
  "snd (makeWorkloadStorage bank noargs
          \<lparr>Provider = ExternalStorageProvider_Workload, WorkloadConfig = Some bank_request\<rparr>)
     = Inr bank_adapter
   \<and> ReadFile bank_adapter ''part1'' = (Inl UnexpectedBasename, bank_adapter)
   \<and> ReadFile bank_adapter [] =
       (Inr (NopCloser (NewCSVRowsReader
          \<lparr>Table_Name = ''accounts'', InitialRows = Some 1000\<rparr> 0 10)), bank_adapter)"
proof -
  have h: "''part1'' \<noteq> []" by simp
  have a: "ReadFile bank_adapter ''part1'' = (Inl UnexpectedBasename, bank_adapter)"
    using ReadFile_basename[of "''part1''" bank_adapter, THEN conjunct1, THEN mp, OF h] .
  have b: "ReadFile bank_adapter [] =
       (Inr (NopCloser (NewCSVRowsReader
          \<lparr>Table_Name = ''accounts'', InitialRows = Some 1000\<rparr> 0 10)), bank_adapter)"
    using ReadFile_basename[of "[]" bank_adapter, THEN conjunct2, THEN conjunct1]
    by (simp add: bank_adapter_def bank_request_def)
  from a b bank_adapter_bound show ?thesis by simp
qed

text \<open>
  C9. On every adapter, \<open>ReadFileAt\<close> panics with \<open>unimplemented\<close>, and \<open>WriteFile\<close>,
  \<open>ListFiles\<close>, \<open>Delete\<close> and \<open>Size\<close> each return an error of their own, whose
  message names the operation; every one of the five leaves the adapter unchanged.
\<close>

theorem unsupported_operations:
  "ReadFileAt s basename offset = (Inl NotImplemented, s)
   \<and> WriteFile s basename content = (Some (OperationNotSupported ''writes''), s)
   \<and> ListFiles s pattern = (([], Some (OperationNotSupported ''listing files'')), s)
   \<and> Delete s basename = (Some (OperationNotSupported ''deletes''), s)
   \<and> Size s basename = ((0, Some (OperationNotSupported ''sizing'')), s)
   \<and> distinct [OperationNotSupported ''writes'', OperationNotSupported ''listing files'',
               OperationNotSupported ''deletes'', OperationNotSupported ''sizing'']
   \<and> Error NotImplemented = Some ''unimplemented''
   \<and> Error (OperationNotSupported ''writes'') = Some ''workload storage does not support writes''
   \<and> Error (OperationNotSupported ''listing files'')
       = Some ''workload storage does not support listing files''
   \<and> Error (OperationNotSupported ''deletes'') = Some ''workload storage does not support deletes''
   \<and> Error (OperationNotSupported ''sizing'') = Some ''workload storage does not support sizing''"
  by (simp add: ReadFileAt_def WriteFile_def ListFiles_def Delete_def Size_def)

text \<open>The five operations on the adapter bound to the table \<open>accounts\<close> of \<open>bank\<close>.\<close>

theorem unsupported_operations_witness:
  "ReadFileAt bank_adapter [] 0 = (Inl NotImplemented, bank_adapter)
   \<and> WriteFile bank_adapter [] ''1,2'' = (Some (OperationNotSupported ''writes''), bank_adapter)
   \<and> ListFiles bank_adapter ''*'' = (([], Some (OperationNotSupported ''listing files'')), bank_adapter)
   \<and> Delete bank_adapter [] = (Some (OperationNotSupported ''deletes''), bank_adapter)
   \<and> Size bank_adapter [] = ((0, Some (OperationNotSupported ''sizing'')), bank_adapter)"
  using unsupported_operations[of bank_adapter "[]" 0 "''1,2''" "''*''"]
  by simp

subsection \<open>Construction without a configuration\<close>

text \<open>
  C10. When the destination carries no workload configuration, \<open>makeWorkloadStorage\<close>
  fails with the error \<open>workload upload requested but info missing\<close> and returns no
  adapter; the telemetry counter is the only call made, so neither the format test nor
  the registry lookup has taken place.
\<close>

theorem missing_workload_config:
  assumes "WorkloadConfig dest = None"
  shows "makeWorkloadStorage W args dest =
           ([TelemetryCount ''external-io.workload''], Inl InfoMissing)
         \<and> (\<forall>n. WorkloadGet n \<notin> set (fst (makeWorkloadStorage W args dest)))
         \<and> Error InfoMissing = Some ''workload upload requested but info missing''"
  using makeWorkloadStorage_nil[OF assms, of W args] by simp

text \<open>
  A destination of the workload provider without a configuration.
\<close>

theorem missing_workload_config_witness:
  "makeWorkloadStorage bank noargs
     \<lparr>Provider = ExternalStorageProvider_Workload, WorkloadConfig = None\<rparr>
   = ([TelemetryCount ''external-io.workload''], Inl InfoMissing)"
proof -
  have h: "WorkloadConfig \<lparr>Provider = ExternalStorageProvider_Workload, WorkloadConfig = None\<rparr> = None"
    by simp
  show ?thesis
    using missing_workload_config[OF h, of bank noargs] by simp
qed

end
